theory Spec2Isabelle
  imports Main
begin

section \<open>html2win: the automatic build-options selector\<close>

text \<open>
  The development embeds \<^verbatim>\<open>AutoOptionsSelector.analyze_source\<close>,
  \<^verbatim>\<open>AutoOptionsSelector.get_optimal_pyinstaller_options\<close> and
  \<^verbatim>\<open>BuildEngine._build_pyinstaller_command\<close> of
  \<^verbatim>\<open>html2exe_pro_premium.py\<close>. Every call into Python's \<^verbatim>\<open>os\<close> and
  \<^verbatim>\<open>sys\<close> modules goes through an explicit interface, so the theorems hold for every
  behaviour of the operating system; every exception is a value \<open>Inl e\<close>.
\<close>

subsection \<open>Python values, exceptions and string operations\<close>

datatype pyval = PyBool bool | PyStr string

datatype error = OSError string | KeyError string

text \<open>Truth value of a Python object in a condition.\<close>

fun truthy :: "pyval \<Rightarrow> bool" where
  "truthy (PyBool b) = b"
| "truthy (PyStr s) = (s \<noteq> [])"

text \<open>\<^verbatim>\<open>s.endswith(suf)\<close> and \<^verbatim>\<open>s.endswith((suf1, suf2, ...))\<close>.\<close>

definition endswith :: "string \<Rightarrow> string \<Rightarrow> bool" where
  "endswith s suf = (length suf \<le> length s \<and> drop (length s - length suf) s = suf)"

definition endswith_any :: "string \<Rightarrow> string list \<Rightarrow> bool" where
  "endswith_any s sufs = list_ex (endswith s) sufs"

text \<open>\<^verbatim>\<open>sub in s\<close> on strings.\<close>

fun str_contains :: "string \<Rightarrow> string \<Rightarrow> bool" where
  "str_contains sub [] = (sub = [])"
| "str_contains sub (c # cs) = (take (length sub) (c # cs) = sub \<or> str_contains sub cs)"

subsection \<open>The operating-system interface\<close>

text \<open>
  The state \<open>'s\<close> is the file system. Reads take the state; \<^verbatim>\<open>os.makedirs\<close> returns the
  new one. \<open>os_path_join os a ps\<close> is \<^verbatim>\<open>os.path.join(a, *ps)\<close>, \<open>open_read\<close> is
  \<^verbatim>\<open>open(path, 'r', errors='ignore').read()\<close>, and \<open>os_makedirs\<close> is called with
  \<^verbatim>\<open>exist_ok=True\<close>.
\<close>

record 's os_iface =
  os_path_exists :: "'s \<Rightarrow> string \<Rightarrow> bool"
  os_listdir :: "'s \<Rightarrow> string \<Rightarrow> error + string list"
  os_path_isfile :: "'s \<Rightarrow> string \<Rightarrow> bool"
  os_path_getsize :: "'s \<Rightarrow> string \<Rightarrow> error + int"
  open_read :: "'s \<Rightarrow> string \<Rightarrow> error + string"
  os_makedirs :: "'s \<Rightarrow> string \<Rightarrow> error + 's"
  os_path_join :: "string \<Rightarrow> string list \<Rightarrow> string"
  sys_platform :: string
  sys_executable :: string

subsection \<open>The recommendations dictionary\<close>

type_synonym recommendations = "string \<rightharpoonup> pyval"

text \<open>\<^verbatim>\<open>d[key]\<close>, which raises \<^verbatim>\<open>KeyError\<close>, and \<^verbatim>\<open>d.get(key, default)\<close>.\<close>

definition dict_index :: "recommendations \<Rightarrow> string \<Rightarrow> error + pyval" where
  "dict_index d k = (case d k of None \<Rightarrow> Inl (KeyError k) | Some v \<Rightarrow> Inr v)"

definition dict_get :: "recommendations \<Rightarrow> string \<Rightarrow> pyval \<Rightarrow> pyval" where
  "dict_get d k dflt = (case d k of None \<Rightarrow> dflt | Some v \<Rightarrow> v)"

text \<open>The dictionary literal at the head of \<^verbatim>\<open>analyze_source\<close>. It has no
  \<^verbatim>\<open>offline_mode\<close> key; the callers read that key with
  \<^verbatim>\<open>analysis.get("offline_mode", False)\<close>.\<close>

definition default_recommendations :: recommendations where
  "default_recommendations =
     [''onefile'' \<mapsto> PyBool True,
      ''console'' \<mapsto> PyBool False,
      ''debug'' \<mapsto> PyBool False,
      ''upx_compress'' \<mapsto> PyBool False,
      ''strip_debug'' \<mapsto> PyBool True,
      ''optimization_level'' \<mapsto> PyStr ''balanced'']"

subsection \<open>\<^verbatim>\<open>AutoOptionsSelector.analyze_source\<close>\<close>

text \<open>
  \<^verbatim>\<open>sum(os.path.getsize(os.path.join(source_path, f)) for f in os.listdir(source_path)
      if os.path.isfile(os.path.join(source_path, f)))\<close>
  over the names already listed: the first failing \<^verbatim>\<open>getsize\<close> ends the sum.
\<close>

fun total_size_of :: "'s os_iface \<Rightarrow> 's \<Rightarrow> string \<Rightarrow> string list \<Rightarrow> error + int" where
  "total_size_of os s source_path [] = Inr 0"
| "total_size_of os s source_path (f # fs) =
     (if os_path_isfile os s (os_path_join os source_path [f]) then
        (case os_path_getsize os s (os_path_join os source_path [f]) of
           Inl e \<Rightarrow> Inl e
         | Inr n \<Rightarrow>
            (case total_size_of os s source_path fs of
               Inl e \<Rightarrow> Inl e
             | Inr t \<Rightarrow> Inr (n + t)))
      else total_size_of os s source_path fs)"

text \<open>
  \<^verbatim>\<open>any(f.endswith('.js') and 'http' in open(os.path.join(source_path, f), 'r',
      errors='ignore').read()[:1000] for f in os.listdir(source_path) if f.endswith('.html'))\<close>
  over the names already listed. The generator keeps the names ending in \<^verbatim>\<open>.html\<close>;
  \<^verbatim>\<open>and\<close> opens the file only when the same name ends in \<^verbatim>\<open>.js\<close>; \<^verbatim>\<open>any\<close>
  stops at the first true element.
\<close>

fun has_external_js :: "'s os_iface \<Rightarrow> 's \<Rightarrow> string \<Rightarrow> string list \<Rightarrow> error + bool" where
  "has_external_js os s source_path [] = Inr False"
| "has_external_js os s source_path (f # fs) =
     (if endswith f ''.html'' then
        (if endswith f ''.js'' then
           (case open_read os s (os_path_join os source_path [f]) of
              Inl e \<Rightarrow> Inl e
            | Inr content \<Rightarrow>
               (if str_contains ''http'' (take 1000 content) then Inr True
                else has_external_js os s source_path fs))
         else has_external_js os s source_path fs)
      else has_external_js os s source_path fs)"

text \<open>
  The function. Its four calls of \<^verbatim>\<open>os.listdir(source_path)\<close> read the same file-system
  state, so the model lists once; \<^verbatim>\<open>file_count\<close> is computed and never used, as in the
  source.
\<close>

definition analyze_source ::
  "'s os_iface \<Rightarrow> 's \<Rightarrow> string \<Rightarrow> string \<Rightarrow> error + recommendations" where
  "analyze_source os s source_path source_type =
     (let recommendations = default_recommendations in
      if source_type = ''folder'' then
        (if os_path_exists os s source_path then
           (case os_listdir os s source_path of
              Inl e \<Rightarrow> Inl e
            | Inr names \<Rightarrow>
               (let file_count =
                      length (filter (\<lambda>f. os_path_isfile os s (os_path_join os source_path [f])) names)
                in case total_size_of os s source_path names of
                     Inl e \<Rightarrow> Inl e
                   | Inr total_size \<Rightarrow>
                      (let r1 = (if total_size > 50 * 1024 * 1024
                                 then recommendations(''onefile'' \<mapsto> PyBool False,
                                                      ''optimization_level'' \<mapsto> PyStr ''size'')
                                 else recommendations);
                           dev_files =
                             filter (\<lambda>f. endswith_any f [''.map'', ''.ts'', ''.scss'', ''.less'']) names;
                           r2 = (if dev_files \<noteq> []
                                 then r1(''strip_debug'' \<mapsto> PyBool True,
                                         ''optimization_level'' \<mapsto> PyStr ''production'')
                                 else r1)
                       in case has_external_js os s source_path names of
                            Inl e \<Rightarrow> Inl e
                          | Inr b \<Rightarrow>
                             Inr (if b then r2(''offline_mode'' \<mapsto> PyBool True) else r2))))
         else Inr recommendations)
      else if source_type = ''url'' then
        Inr (recommendations(''onefile'' \<mapsto> PyBool True,
                             ''offline_mode'' \<mapsto> PyBool True,
                             ''optimization_level'' \<mapsto> PyStr ''portable''))
      else Inr recommendations)"

subsection \<open>Configuration\<close>

text \<open>\<^verbatim>\<open>AppMetadata\<close> (the field the selector reads), \<^verbatim>\<open>BuildConfig\<close> and
  \<^verbatim>\<open>AppConfig\<close> (the two sections the selector reads).\<close>

record app_metadata =
  name :: string

record build_config =
  source_type :: string
  source_path :: string
  output_dir :: string
  offline_mode :: bool
  onefile :: bool
  console :: bool
  debug :: bool
  upx_compress :: bool
  icon_path :: string
  strip_debug :: bool

record app_config =
  metadata :: app_metadata
  build :: build_config

subsection \<open>\<^verbatim>\<open>AutoOptionsSelector.get_optimal_pyinstaller_options\<close>\<close>

definition hidden_imports :: "string list" where
  "hidden_imports =
     [''flask'', ''webview'', ''threading'', ''json'', ''os'', ''sys'', ''time'',
      ''urllib.parse'', ''base64'', ''hashlib'', ''datetime'', ''tempfile'']"

text \<open>The function returns the option list; the model returns the file system after the
  three \<^verbatim>\<open>os.makedirs\<close> calls with it. The analysis reads the state before them, the
  icon test the state after them.\<close>

definition get_optimal_pyinstaller_options ::
  "'s os_iface \<Rightarrow> 's \<Rightarrow> app_config \<Rightarrow> error + (string list \<times> 's)" where
  "get_optimal_pyinstaller_options os s config =
     (case analyze_source os s (source_path (build config)) (source_type (build config)) of
        Inl e \<Rightarrow> Inl e
      | Inr analysis \<Rightarrow>
     (case os_makedirs os s (output_dir (build config)) of
        Inl e \<Rightarrow> Inl e
      | Inr s1 \<Rightarrow>
     (let dist_path = os_path_join os (output_dir (build config)) [''dist''];
          work_path = os_path_join os (output_dir (build config)) [''build'', ''work'']
      in
     (case os_makedirs os s1 dist_path of
        Inl e \<Rightarrow> Inl e
      | Inr s2 \<Rightarrow>
     (case os_makedirs os s2 work_path of
        Inl e \<Rightarrow> Inl e
      | Inr s3 \<Rightarrow>
     (let options0 =
            [''--noconfirm'',
             ''--clean'',
             ''--name='' @ name (metadata config),
             ''--distpath='' @ dist_path,
             ''--workpath='' @ work_path]
      in
     (case dict_index analysis ''onefile'' of
        Inl e \<Rightarrow> Inl e
      | Inr v_onefile \<Rightarrow>
     (let options1 = (if truthy v_onefile then options0 @ [''--onefile'']
                      else options0 @ [''--onedir'']);
          options2 = (if \<not> console (build config) then options1 @ [''--windowed'']
                      else options1)
      in
     (case dict_index analysis ''strip_debug'' of
        Inl e \<Rightarrow> Inl e
      | Inr v_strip \<Rightarrow>
     (let options3 = (if truthy v_strip then options2 @ [''--strip''] else options2)
      in
     (case dict_index analysis ''upx_compress'' of
        Inl e \<Rightarrow> Inl e
      | Inr v_upx \<Rightarrow>
     (let options4 = (if truthy v_upx then options3 @ [''--upx-dir=upx''] else options3);
          options5 =
            (if source_type (build config) = ''folder'' then
               (let html_assets =
                      os_path_join os (output_dir (build config)) [''build'', ''html_assets'']
                in if sys_platform os = ''win32''
                   then options4 @ [''--add-data='' @ html_assets @ '';html_assets'']
                   else options4 @ [''--add-data='' @ html_assets @ '':html_assets''])
             else options4);
          options6 = options5 @ map (\<lambda>imp. ''--hidden-import='' @ imp) hidden_imports;
          options7 =
            (if icon_path (build config) \<noteq> [] \<and> os_path_exists os s3 (icon_path (build config))
             then options6 @ [''--icon='' @ icon_path (build config)]
             else options6)
      in Inr (options7, s3)))))))))))))"

subsection \<open>\<^verbatim>\<open>BuildEngine._build_pyinstaller_command\<close>\<close>

definition build_pyinstaller_command ::
  "'s os_iface \<Rightarrow> 's \<Rightarrow> app_config \<Rightarrow> string \<Rightarrow> error + (string list \<times> 's)" where
  "build_pyinstaller_command os s config main_script_path =
     (case get_optimal_pyinstaller_options os s config of
        Inl e \<Rightarrow> Inl e
      | Inr (auto_options, s') \<Rightarrow>
         (let cmd = [sys_executable os, ''-m'', ''PyInstaller''] @ auto_options;
              cmd = cmd @ [main_script_path]
          in Inr (cmd, s')))"

subsection \<open>The option list in closed form\<close>

text \<open>The list \<^verbatim>\<open>get_optimal_pyinstaller_options\<close> builds by successive
  \<^verbatim>\<open>append\<close> calls, as one expression in the order of the source: the five fixed
  options, the packaging mode, \<^verbatim>\<open>--windowed\<close>, \<^verbatim>\<open>--strip\<close>, \<^verbatim>\<open>--upx-dir\<close>,
  \<^verbatim>\<open>--add-data\<close>, the hidden imports, \<^verbatim>\<open>--icon\<close>.\<close>

definition directives_of ::
  "'s os_iface \<Rightarrow> 's \<Rightarrow> app_config \<Rightarrow> recommendations \<Rightarrow> string list" where
  "directives_of os s' config analysis =
     [''--noconfirm'', ''--clean'']
     @ [''--name='' @ name (metadata config)]
     @ [''--distpath='' @ os_path_join os (output_dir (build config)) [''dist'']]
     @ [''--workpath='' @ os_path_join os (output_dir (build config)) [''build'', ''work'']]
     @ (if analysis ''onefile'' = Some (PyBool True) then [''--onefile''] else [''--onedir''])
     @ (if console (build config) then [] else [''--windowed''])
     @ (if analysis ''strip_debug'' = Some (PyBool True) then [''--strip''] else [])
     @ (if analysis ''upx_compress'' = Some (PyBool True) then [''--upx-dir=upx''] else [])
     @ (if source_type (build config) = ''folder''
        then (if sys_platform os = ''win32''
              then [''--add-data=''
                    @ os_path_join os (output_dir (build config)) [''build'', ''html_assets'']
                    @ '';html_assets'']
              else [''--add-data=''
                    @ os_path_join os (output_dir (build config)) [''build'', ''html_assets'']
                    @ '':html_assets''])
        else [])
     @ map (\<lambda>imp. ''--hidden-import='' @ imp) hidden_imports
     @ (if icon_path (build config) \<noteq> [] \<and> os_path_exists os s' (icon_path (build config))
        then [''--icon='' @ icon_path (build config)] else [])"

text \<open>A data-inclusion directive is an option that starts with \<^verbatim>\<open>--add-data=\<close>.\<close>

definition is_data_directive :: "string \<Rightarrow> bool" where
  "is_data_directive d = (take 11 d = ''--add-data='')"

subsection \<open>A small file system for concrete runs\<close>

text \<open>\<^verbatim>\<open>posixpath.join\<close>: a component that starts with a slash replaces what came before;
  otherwise it is added after a slash, unless the path is empty or already ends in one.\<close>

fun posix_join :: "string \<Rightarrow> string list \<Rightarrow> string" where
  "posix_join a [] = a"
| "posix_join a (b # bs) =
     posix_join (if take 1 b = ''/'' then b
                 else if a = [] \<or> last a = CHR ''/'' then a @ b
                 else a @ ''/'' @ b) bs"

text \<open>A Linux machine with directories \<open>dirs\<close> (path and entry names), regular files
  \<open>files\<close> (path, size, text) and directories \<open>locked\<close> that exist and cannot be listed.
  The state is the list of directories made so far.\<close>

definition sim_os ::
  "(string \<times> string list) list \<Rightarrow> (string \<times> int \<times> string) list \<Rightarrow> string list
     \<Rightarrow> string list os_iface" where
  "sim_os dirs files locked =
     \<lparr> os_path_exists = (\<lambda>s p. p \<in> set (s @ locked @ map fst dirs @ map fst files)),
       os_listdir = (\<lambda>s p.
          if p \<in> set locked then Inl (OSError ''Permission denied'')
          else (case map_of dirs p of
                  None \<Rightarrow> Inl (OSError ''No such file or directory'')
                | Some ns \<Rightarrow> Inr ns)),
       os_path_isfile = (\<lambda>s p. p \<in> set (map fst files)),
       os_path_getsize = (\<lambda>s p.
          case map_of files p of
            None \<Rightarrow> Inl (OSError ''No such file or directory'')
          | Some (n, c) \<Rightarrow> Inr n),
       open_read = (\<lambda>s p.
          case map_of files p of
            None \<Rightarrow> Inl (OSError ''No such file or directory'')
          | Some (n, c) \<Rightarrow> Inr c),
       os_makedirs = (\<lambda>s p. Inr (p # s)),
       os_path_join = posix_join,
       sys_platform = ''linux'',
       sys_executable = ''python3'' \<rparr>"

text \<open>\<^verbatim>\<open>/app\<close> holds a page and a script whose text starts with an external address;
  \<^verbatim>\<open>/locked\<close> exists and cannot be listed.\<close>

definition app_os :: "string list os_iface" where
  "app_os = sim_os
     [(''/app'', [''index.html'', ''app.js''])]
     [(''/app/index.html'', 64, ''<html><script src=app.js></script></html>''),
      (''/app/app.js'', 40, ''load(http://cdn.example.com/lib.js)'')]
     [''/locked'']"

text \<open>\<^verbatim>\<open>/site\<close> holds a source map beside a file of 60 MiB.\<close>

definition dev_os :: "string list os_iface" where
  "dev_os = sim_os
     [(''/site'', [''index.html'', ''bundle.js.map'', ''video.bin''])]
     [(''/site/index.html'', 1024, ''<html></html>''),
      (''/site/bundle.js.map'', 1024, ''{}''),
      (''/site/video.bin'', 62914560, [])]
     []"

text \<open>\<^verbatim>\<open>/big\<close> holds a file of 60 MiB, a page and a subdirectory, and no development file.\<close>

definition big_os :: "string list os_iface" where
  "big_os = sim_os
     [(''/big'', [''index.html'', ''video.bin'', ''assets''])]
     [(''/big/index.html'', 1024, ''<html></html>''),
      (''/big/video.bin'', 62914560, [])]
     []"

text \<open>An \<^verbatim>\<open>AppConfig\<close> with the defaults of \<^verbatim>\<open>BuildConfig\<close>, the name
  \<^verbatim>\<open>Demo\<close> and the output directory \<^verbatim>\<open>out\<close>.\<close>

definition demo_config :: "string \<Rightarrow> string \<Rightarrow> app_config" where
  "demo_config kind location =
     \<lparr> metadata = \<lparr> name = ''Demo'' \<rparr>,
       build = \<lparr> source_type = kind, source_path = location, output_dir = ''out'',
                 offline_mode = False, onefile = True, console = False, debug = False,
                 upx_compress = False, icon_path = [], strip_debug = True \<rparr> \<rparr>"

section \<open>Properties of the analysis\<close>

subsection \<open>The external-script scan never fires\<close>

lemma endswith_last: "suf \<noteq> [] \<Longrightarrow> endswith s suf \<Longrightarrow> last s = last suf"
proof -
  assume ne: "suf \<noteq> []" and e: "endswith s suf"
  from e have "s = take (length s - length suf) s @ suf"
    by (metis append_take_drop_id endswith_def)
  then have "last s = last (take (length s - length suf) s @ suf)" by simp
  also have "\<dots> = last suf" using ne by simp
  finally show ?thesis .
qed

lemma html_not_js: "endswith f ''.html'' \<Longrightarrow> \<not> endswith f ''.js''"
proof
  assume h: "endswith f ''.html''" and j: "endswith f ''.js''"
  have "last f = last ''.html''" using h by (intro endswith_last) simp_all
  moreover have "last f = last ''.js''" using j by (intro endswith_last) simp_all
  ultimately show False by simp
qed

text \<open>No name ends in \<^verbatim>\<open>.html\<close> and in \<^verbatim>\<open>.js\<close>, so the scan opens no file and is
  false on every directory.\<close>

lemma has_external_js_never: "has_external_js os s p names = Inr False"
  by (induction names) (simp_all add: html_not_js)

subsection \<open>The folder branch in closed form\<close>

lemma analyze_source_folder:
  "analyze_source os s p ''folder'' =
     (if os_path_exists os s p then
        (case os_listdir os s p of
           Inl e \<Rightarrow> Inl e
         | Inr names \<Rightarrow>
            (case total_size_of os s p names of
               Inl e \<Rightarrow> Inl e
             | Inr tsz \<Rightarrow>
                Inr (let r1 = (if tsz > 52428800
                               then default_recommendations(''onefile'' \<mapsto> PyBool False,
                                      ''optimization_level'' \<mapsto> PyStr ''size'')
                               else default_recommendations)
                     in if list_ex (\<lambda>f. endswith_any f [''.map'', ''.ts'', ''.scss'', ''.less'']) names
                        then r1(''strip_debug'' \<mapsto> PyBool True,
                                ''optimization_level'' \<mapsto> PyStr ''production'')
                        else r1)))
      else Inr default_recommendations)"
  by (simp add: analyze_source_def has_external_js_never Let_def filter_empty_conv list_ex_iff
           split: sum.splits)

lemma analyze_source_flags:
  assumes "analyze_source os s p t = Inr r"
  shows "r ''upx_compress'' = Some (PyBool False)"
    and "r ''strip_debug'' = Some (PyBool True)"
    and "r ''onefile'' = Some (PyBool True) \<or> r ''onefile'' = Some (PyBool False)"
  using assms
  by (auto simp: analyze_source_def has_external_js_never Let_def default_recommendations_def
           split: if_splits sum.splits)

lemma folder_analysis_leaves_offline_mode_unset:
  assumes "analyze_source os s p ''folder'' = Inr r"
  shows "r ''offline_mode'' = None"
  using assms
  by (auto simp: analyze_source_folder Let_def default_recommendations_def
           split: if_splits sum.splits)

subsection \<open>The size sum\<close>

lemma total_size_of_sum:
  assumes "\<forall>f\<in>set names. os_path_isfile os s (os_path_join os p [f])
             \<longrightarrow> os_path_getsize os s (os_path_join os p [f]) = Inr (sz f)"
  shows "total_size_of os s p names =
           Inr (sum_list (map sz (filter (\<lambda>f. os_path_isfile os s (os_path_join os p [f])) names)))"
  using assms by (induction names) simp_all

lemma total_size_of_Inr_iff:
  "(\<exists>t. total_size_of os s p names = Inr t) \<longleftrightarrow>
     (\<forall>f\<in>set names. os_path_isfile os s (os_path_join os p [f])
         \<longrightarrow> (\<exists>n. os_path_getsize os s (os_path_join os p [f]) = Inr n))"
  by (induction names) (auto split: sum.splits)

section \<open>The claims about the analysis\<close>

text \<open>
  C1. A folder with a top-level \<^verbatim>\<open>.html\<close> file and a sibling \<^verbatim>\<open>.js\<close> file whose
  first 1000 characters contain \<^verbatim>\<open>http\<close> should be analysed with offline mode on.
  The code does not do that. On \<^verbatim>\<open>/app\<close>, which lists \<^verbatim>\<open>index.html\<close> and
  \<^verbatim>\<open>app.js\<close>, where \<^verbatim>\<open>app.js\<close> is readable and its text contains \<^verbatim>\<open>http\<close> within
  the first 1000 characters, the analysis returns the default dictionary, which has no
  \<^verbatim>\<open>offline_mode\<close> key: the scan looks for \<^verbatim>\<open>.js\<close> among the names that end in
  \<^verbatim>\<open>.html\<close>.
\<close>

theorem analyze_source_misses_external_js:
  "os_path_exists app_os [] ''/app''
   \<and> os_listdir app_os [] ''/app'' = Inr [''index.html'', ''app.js'']
   \<and> open_read app_os [] (os_path_join app_os ''/app'' [''app.js''])
        = Inr ''load(http://cdn.example.com/lib.js)''
   \<and> str_contains ''http'' (take 1000 ''load(http://cdn.example.com/lib.js)'')
   \<and> analyze_source app_os [] ''/app'' ''folder'' = Inr default_recommendations
   \<and> default_recommendations ''offline_mode'' = None"
  by (simp add: app_os_def sim_os_def analyze_source_folder endswith_any_def endswith_def
        default_recommendations_def)




text \<open>
  C3. For a folder source whose path does not exist the analysis returns, without raising,
  the hardcoded defaults: single file on, console off, debug off, compression off, strip on,
  optimization level balanced, and offline mode off. The dictionary has no
  \<^verbatim>\<open>offline_mode\<close> key; the callers read it with \<^verbatim>\<open>analysis.get("offline_mode", False)\<close>,
  which is \<^verbatim>\<open>False\<close>.
\<close>

theorem analyze_source_missing_folder_defaults:
  assumes "\<not> os_path_exists os s p"
  shows "analyze_source os s p ''folder'' = Inr default_recommendations
       \<and> default_recommendations ''onefile'' = Some (PyBool True)
       \<and> default_recommendations ''console'' = Some (PyBool False)
       \<and> default_recommendations ''debug'' = Some (PyBool False)
       \<and> default_recommendations ''upx_compress'' = Some (PyBool False)
       \<and> default_recommendations ''strip_debug'' = Some (PyBool True)
       \<and> dict_get default_recommendations ''offline_mode'' (PyBool False) = PyBool False
       \<and> default_recommendations ''optimization_level'' = Some (PyStr ''balanced'')"
  using assms by (simp add: analyze_source_folder default_recommendations_def dict_get_def)

theorem analyze_source_missing_folder_defaults_witness:
  "analyze_source app_os [] ''/missing'' ''folder'' = Inr default_recommendations"
  using analyze_source_missing_folder_defaults [of app_os "[]" "''/missing''"]
  by (simp add: app_os_def sim_os_def)

text \<open>
  C4. For an existing folder whose listing holds a name ending in \<^verbatim>\<open>.map\<close>, \<^verbatim>\<open>.ts\<close>,
  \<^verbatim>\<open>.scss\<close> or \<^verbatim>\<open>.less\<close>, the analysis returns the optimization level production and
  strip on, whatever the total size. The listing and the size reads are taken to succeed, as
  they do on a file system that keeps still during the call.
\<close>

theorem analyze_source_dev_files_production:
  assumes "os_path_exists os s p"
    and "os_listdir os s p = Inr names"
    and "\<forall>f\<in>set names. os_path_isfile os s (os_path_join os p [f])
           \<longrightarrow> (\<exists>n. os_path_getsize os s (os_path_join os p [f]) = Inr n)"
    and "\<exists>f\<in>set names. endswith f ''.map'' \<or> endswith f ''.ts'' \<or> endswith f ''.scss''
           \<or> endswith f ''.less''"
  shows "\<exists>r. analyze_source os s p ''folder'' = Inr r
           \<and> r ''optimization_level'' = Some (PyStr ''production'')
           \<and> r ''strip_debug'' = Some (PyBool True)"
proof -
  from assms(3) obtain t where t: "total_size_of os s p names = Inr t"
    using total_size_of_Inr_iff [of os s p names] by blast
  have dev: "list_ex (\<lambda>f. endswith_any f [''.map'', ''.ts'', ''.scss'', ''.less'']) names"
    using assms(4) by (auto simp: list_ex_iff endswith_any_def)
  show ?thesis
    by (simp add: analyze_source_folder assms(1,2) t dev Let_def)
qed

theorem analyze_source_dev_files_production_witness:
  "\<exists>r. analyze_source dev_os [] ''/site'' ''folder'' = Inr r
     \<and> r ''optimization_level'' = Some (PyStr ''production'')
     \<and> r ''strip_debug'' = Some (PyBool True)"
  using analyze_source_dev_files_production
          [of dev_os "[]" "''/site''" "[''index.html'', ''bundle.js.map'', ''video.bin'']"]
  by (simp add: dev_os_def sim_os_def endswith_def)

text \<open>
  C5. For an existing folder whose top-level regular files sum to more than 50 MiB and whose
  listing holds no name ending in \<^verbatim>\<open>.map\<close>, \<^verbatim>\<open>.ts\<close>, \<^verbatim>\<open>.scss\<close> or \<^verbatim>\<open>.less\<close>, the
  analysis returns single file off and the optimization level size. \<open>sz f\<close> is the size of
  the regular file named \<open>f\<close>.
\<close>

theorem analyze_source_large_folder_size:
  assumes "os_path_exists os s p"
    and "os_listdir os s p = Inr names"
    and "\<forall>f\<in>set names. os_path_isfile os s (os_path_join os p [f])
           \<longrightarrow> os_path_getsize os s (os_path_join os p [f]) = Inr (sz f)"
    and "sum_list (map sz (filter (\<lambda>f. os_path_isfile os s (os_path_join os p [f])) names))
           > 50 * 1024 * 1024"
    and "\<forall>f\<in>set names. \<not> endswith f ''.map'' \<and> \<not> endswith f ''.ts'' \<and> \<not> endswith f ''.scss''
           \<and> \<not> endswith f ''.less''"
  shows "\<exists>r. analyze_source os s p ''folder'' = Inr r
           \<and> r ''onefile'' = Some (PyBool False)
           \<and> r ''optimization_level'' = Some (PyStr ''size'')"
proof -
  note t = total_size_of_sum [OF assms(3)]
  have dev: "\<not> list_ex (\<lambda>f. endswith_any f [''.map'', ''.ts'', ''.scss'', ''.less'']) names"
    using assms(5) by (auto simp: list_ex_iff endswith_any_def)
  show ?thesis
    using assms(4) by (simp add: analyze_source_folder assms(1,2) t dev Let_def)
qed

theorem analyze_source_large_folder_size_witness:
  "\<exists>r. analyze_source big_os [] ''/big'' ''folder'' = Inr r
     \<and> r ''onefile'' = Some (PyBool False)
     \<and> r ''optimization_level'' = Some (PyStr ''size'')"
  using analyze_source_large_folder_size
          [of big_os "[]" "''/big''" "[''index.html'', ''video.bin'', ''assets'']"
              "\<lambda>f. if f = ''video.bin'' then 62914560 else 1024"]
  by (simp add: big_os_def sim_os_def endswith_def)

text \<open>
  C6. For a URL source the analysis returns single file on, offline mode on and the
  optimization level portable, and the same dictionary for every location, operating system
  and file-system state: nothing is read.
\<close>

theorem analyze_source_url_portable:
  "\<exists>r. analyze_source os s location ''url'' = Inr r
     \<and> r ''onefile'' = Some (PyBool True)
     \<and> r ''offline_mode'' = Some (PyBool True)
     \<and> r ''optimization_level'' = Some (PyStr ''portable'')
     \<and> analyze_source os' s' location' ''url'' = Inr r"
  by (simp add: analyze_source_def)

section \<open>Properties of the option list\<close>

lemma if_append1: "(if c then xs @ ys else xs) = xs @ (if c then ys else [])"
  by simp

lemma if_append2: "(if c then xs @ ys else xs @ zs) = xs @ (if c then ys else zs)"
  by simp

lemma if_append3:
  "(if c then (if d then xs @ ys else xs @ zs) else xs) = xs @ (if c then (if d then ys else zs) else [])"
  by simp

lemma if_not_swap: "(if \<not> c then x else y) = (if c then y else x)"
  by simp

lemma get_optimal_eq:
  "get_optimal_pyinstaller_options os s config =
     (case analyze_source os s (source_path (build config)) (source_type (build config)) of
        Inl e \<Rightarrow> Inl e
      | Inr analysis \<Rightarrow>
     (case os_makedirs os s (output_dir (build config)) of
        Inl e \<Rightarrow> Inl e
      | Inr s1 \<Rightarrow>
     (case os_makedirs os s1 (os_path_join os (output_dir (build config)) [''dist'']) of
        Inl e \<Rightarrow> Inl e
      | Inr s2 \<Rightarrow>
     (case os_makedirs os s2 (os_path_join os (output_dir (build config)) [''build'', ''work'']) of
        Inl e \<Rightarrow> Inl e
      | Inr s3 \<Rightarrow> Inr (directives_of os s3 config analysis, s3)))))"
proof (cases "analyze_source os s (source_path (build config)) (source_type (build config))")
  case (Inl e)
  then show ?thesis by (simp add: get_optimal_pyinstaller_options_def)
next
  case (Inr analysis)
  note fl = analyze_source_flags [OF Inr]
  from fl(3) obtain b where b: "analysis ''onefile'' = Some (PyBool b)" by blast
  have di: "dict_index analysis ''onefile'' = Inr (PyBool b)"
           "dict_index analysis ''strip_debug'' = Inr (PyBool True)"
           "dict_index analysis ''upx_compress'' = Inr (PyBool False)"
    using fl(1,2) b by (simp_all add: dict_index_def)
  show ?thesis
    by (cases b)
       (simp_all add: get_optimal_pyinstaller_options_def Inr directives_of_def Let_def di fl(1,2) b
             if_append1 if_append2 if_not_swap if_append3
             split: sum.splits split del: if_split cong del: if_weak_cong)
qed

lemma get_optimal_Inr:
  assumes "get_optimal_pyinstaller_options os s config = Inr (opts, s')"
  shows "\<exists>analysis.
           analyze_source os s (source_path (build config)) (source_type (build config)) = Inr analysis
         \<and> opts = directives_of os s' config analysis"
  using assms unfolding get_optimal_eq by (simp split: sum.splits)

text \<open>When the analysis and the three \<^verbatim>\<open>os.makedirs\<close> calls succeed, the function returns.\<close>

lemma get_optimal_returns:
  assumes "analyze_source os s (source_path (build config)) (source_type (build config)) = Inr analysis"
    and "os_makedirs os s (output_dir (build config)) = Inr s1"
    and "os_makedirs os s1 (os_path_join os (output_dir (build config)) [''dist'']) = Inr s2"
    and "os_makedirs os s2 (os_path_join os (output_dir (build config)) [''build'', ''work'']) = Inr s3"
  shows "get_optimal_pyinstaller_options os s config = Inr (directives_of os s3 config analysis, s3)"
  by (simp add: get_optimal_eq assms)

lemma hidden_not_data:
  "filter is_data_directive (map (\<lambda>imp. ''--hidden-import='' @ imp) xs) = []"
  by (simp add: filter_empty_conv is_data_directive_def)

lemma hidden_count:
  "count_list (map (\<lambda>imp. ''--hidden-import='' @ imp) xs) ''--onefile'' = 0"
  "count_list (map (\<lambda>imp. ''--hidden-import='' @ imp) xs) ''--onedir'' = 0"
  "''--upx-dir=upx'' \<notin> set (map (\<lambda>imp. ''--hidden-import='' @ imp) xs)"
  by (auto simp: count_list_0_iff)

text \<open>The run used by the concrete instances below: the folder \<^verbatim>\<open>/app\<close> on \<open>app_os\<close>.\<close>

lemma app_run:
  "get_optimal_pyinstaller_options app_os [] (demo_config ''folder'' ''/app'')
     = Inr (directives_of app_os [''out/build/work'', ''out/dist'', ''out'']
              (demo_config ''folder'' ''/app'') default_recommendations,
            [''out/build/work'', ''out/dist'', ''out''])"
proof -
  have a: "analyze_source app_os [] ''/app'' ''folder'' = Inr default_recommendations"
    by (simp add: app_os_def sim_os_def analyze_source_folder endswith_any_def endswith_def)
  have j: "os_path_join app_os = posix_join" "os_makedirs app_os = (\<lambda>s p. Inr (p # s))"
    by (simp_all add: app_os_def sim_os_def)
  show ?thesis
    by (simp add: get_optimal_eq demo_config_def a j)
qed

section \<open>The claims about the option list\<close>

text \<open>
  C7. For every configuration, the command \<^verbatim>\<open>_build_pyinstaller_command\<close> returns is
  the interpreter prefix and the two fixed options, then the name option, the distribution
  path, the work path, one packaging mode, \<^verbatim>\<open>--windowed\<close> exactly when the console flag
  is false, the compression option only if the analysis asks for compression, \<^verbatim>\<open>--strip\<close>
  only if the analysis asks for it, \<^verbatim>\<open>--add-data\<close> only for a folder source, the twelve
  hidden imports, \<^verbatim>\<open>--icon\<close> only if the icon path is set and exists, and the entry-point
  path as the last element. The source appends \<^verbatim>\<open>--strip\<close> before the compression
  option; the analysis never asks for compression, so no returned list holds the compression
  option and the order stated here holds of every list the function returns.
\<close>

theorem build_command_directive_order:
  assumes "build_pyinstaller_command os s config main_script_path = Inr (cmd, s')"
  shows "\<exists>analysis.
      analyze_source os s (source_path (build config)) (source_type (build config)) = Inr analysis
    \<and> cmd =
        [sys_executable os, ''-m'', ''PyInstaller'', ''--noconfirm'', ''--clean'']
        @ [''--name='' @ name (metadata config)]
        @ [''--distpath='' @ os_path_join os (output_dir (build config)) [''dist'']]
        @ [''--workpath='' @ os_path_join os (output_dir (build config)) [''build'', ''work'']]
        @ (if analysis ''onefile'' = Some (PyBool True) then [''--onefile''] else [''--onedir''])
        @ (if console (build config) then [] else [''--windowed''])
        @ (if analysis ''upx_compress'' = Some (PyBool True) then [''--upx-dir=upx''] else [])
        @ (if analysis ''strip_debug'' = Some (PyBool True) then [''--strip''] else [])
        @ (if source_type (build config) = ''folder''
           then [''--add-data=''
                 @ os_path_join os (output_dir (build config)) [''build'', ''html_assets'']
                 @ (if sys_platform os = ''win32'' then '';html_assets'' else '':html_assets'')]
           else [])
        @ map (\<lambda>imp. ''--hidden-import='' @ imp) hidden_imports
        @ (if icon_path (build config) \<noteq> [] \<and> os_path_exists os s' (icon_path (build config))
           then [''--icon='' @ icon_path (build config)] else [])
        @ [main_script_path]"
proof -
  from assms obtain opts where
    g: "get_optimal_pyinstaller_options os s config = Inr (opts, s')"
    and c: "cmd = [sys_executable os, ''-m'', ''PyInstaller''] @ opts @ [main_script_path]"
    by (auto simp: build_pyinstaller_command_def split: sum.splits)
  from get_optimal_Inr [OF g] obtain analysis where
    a: "analyze_source os s (source_path (build config)) (source_type (build config)) = Inr analysis"
    and o: "opts = directives_of os s' config analysis"
    by blast
  note fl = analyze_source_flags(1,2) [OF a]
  have "cmd = [sys_executable os, ''-m'', ''PyInstaller'', ''--noconfirm'', ''--clean'']
        @ [''--name='' @ name (metadata config)]
        @ [''--distpath='' @ os_path_join os (output_dir (build config)) [''dist'']]
        @ [''--workpath='' @ os_path_join os (output_dir (build config)) [''build'', ''work'']]
        @ (if analysis ''onefile'' = Some (PyBool True) then [''--onefile''] else [''--onedir''])
        @ (if console (build config) then [] else [''--windowed''])
        @ (if analysis ''upx_compress'' = Some (PyBool True) then [''--upx-dir=upx''] else [])
        @ (if analysis ''strip_debug'' = Some (PyBool True) then [''--strip''] else [])
        @ (if source_type (build config) = ''folder''
           then [''--add-data=''
                 @ os_path_join os (output_dir (build config)) [''build'', ''html_assets'']
                 @ (if sys_platform os = ''win32'' then '';html_assets'' else '':html_assets'')]
           else [])
        @ map (\<lambda>imp. ''--hidden-import='' @ imp) hidden_imports
        @ (if icon_path (build config) \<noteq> [] \<and> os_path_exists os s' (icon_path (build config))
           then [''--icon='' @ icon_path (build config)] else [])
        @ [main_script_path]"
    unfolding c o directives_of_def fl by simp
  with a show ?thesis by blast
qed

theorem build_command_directive_order_witness:
  "\<exists>s'. build_pyinstaller_command app_os [] (demo_config ''folder'' ''/app'') ''main.py'' =
     Inr ([''python3'', ''-m'', ''PyInstaller'', ''--noconfirm'', ''--clean'',
           ''--name=Demo'', ''--distpath=out/dist'', ''--workpath=out/build/work'',
           ''--onefile'', ''--windowed'', ''--strip'',
           ''--add-data=out/build/html_assets:html_assets'',
           ''--hidden-import=flask'', ''--hidden-import=webview'',
           ''--hidden-import=threading'', ''--hidden-import=json'',
           ''--hidden-import=os'', ''--hidden-import=sys'',
           ''--hidden-import=time'', ''--hidden-import=urllib.parse'',
           ''--hidden-import=base64'', ''--hidden-import=hashlib'',
           ''--hidden-import=datetime'', ''--hidden-import=tempfile'',
           ''main.py''], s')"
proof -
  have "\<exists>cmd s'. build_pyinstaller_command app_os [] (demo_config ''folder'' ''/app'') ''main.py''
          = Inr (cmd, s')"
    by (simp add: build_pyinstaller_command_def app_run)
  then obtain cmd s' where
    run: "build_pyinstaller_command app_os [] (demo_config ''folder'' ''/app'') ''main.py''
            = Inr (cmd, s')"
    by blast
  from build_command_directive_order [OF run] obtain analysis where
    a: "analyze_source app_os [] (source_path (build (demo_config ''folder'' ''/app'')))
          (source_type (build (demo_config ''folder'' ''/app''))) = Inr analysis"
    and c: "cmd =
        [sys_executable app_os, ''-m'', ''PyInstaller'', ''--noconfirm'', ''--clean'']
        @ [''--name='' @ name (metadata (demo_config ''folder'' ''/app''))]
        @ [''--distpath='' @ os_path_join app_os (output_dir (build (demo_config ''folder'' ''/app''))) [''dist'']]
        @ [''--workpath='' @ os_path_join app_os (output_dir (build (demo_config ''folder'' ''/app''))) [''build'', ''work'']]
        @ (if analysis ''onefile'' = Some (PyBool True) then [''--onefile''] else [''--onedir''])
        @ (if console (build (demo_config ''folder'' ''/app'')) then [] else [''--windowed''])
        @ (if analysis ''upx_compress'' = Some (PyBool True) then [''--upx-dir=upx''] else [])
        @ (if analysis ''strip_debug'' = Some (PyBool True) then [''--strip''] else [])
        @ (if source_type (build (demo_config ''folder'' ''/app'')) = ''folder''
           then [''--add-data=''
                 @ os_path_join app_os (output_dir (build (demo_config ''folder'' ''/app''))) [''build'', ''html_assets'']
                 @ (if sys_platform app_os = ''win32'' then '';html_assets'' else '':html_assets'')]
           else [])
        @ map (\<lambda>imp. ''--hidden-import='' @ imp) hidden_imports
        @ (if icon_path (build (demo_config ''folder'' ''/app'')) \<noteq> []
              \<and> os_path_exists app_os s' (icon_path (build (demo_config ''folder'' ''/app'')))
           then [''--icon='' @ icon_path (build (demo_config ''folder'' ''/app''))] else [])
        @ [''main.py'']"
    by blast
  from a have an: "analysis = default_recommendations"
    by (simp add: demo_config_def app_os_def sim_os_def analyze_source_folder endswith_any_def
          endswith_def)
  have "cmd = [''python3'', ''-m'', ''PyInstaller'', ''--noconfirm'', ''--clean'',
           ''--name=Demo'', ''--distpath=out/dist'', ''--workpath=out/build/work'',
           ''--onefile'', ''--windowed'', ''--strip'',
           ''--add-data=out/build/html_assets:html_assets'',
           ''--hidden-import=flask'', ''--hidden-import=webview'',
           ''--hidden-import=threading'', ''--hidden-import=json'',
           ''--hidden-import=os'', ''--hidden-import=sys'',
           ''--hidden-import=time'', ''--hidden-import=urllib.parse'',
           ''--hidden-import=base64'', ''--hidden-import=hashlib'',
           ''--hidden-import=datetime'', ''--hidden-import=tempfile'',
           ''main.py'']"
    unfolding c an
    by (simp add: demo_config_def app_os_def sim_os_def default_recommendations_def
          hidden_imports_def)
  with run show ?thesis by blast
qed

text \<open>
  C8. The option list holds a data-inclusion directive if and only if the source type is
  \<^verbatim>\<open>folder\<close>, and then it holds exactly one: the asset directory, then \<^verbatim>\<open>;\<close> when
  \<^verbatim>\<open>sys.platform\<close> is \<^verbatim>\<open>win32\<close> and \<^verbatim>\<open>:\<close> otherwise, then the name
  \<^verbatim>\<open>html_assets\<close>.
\<close>

theorem data_directive_iff_folder:
  assumes "get_optimal_pyinstaller_options os s config = Inr (opts, s')"
  shows "(list_ex is_data_directive opts \<longleftrightarrow> source_type (build config) = ''folder'')
       \<and> filter is_data_directive opts =
           (if source_type (build config) = ''folder''
            then [''--add-data=''
                  @ os_path_join os (output_dir (build config)) [''build'', ''html_assets'']
                  @ (if sys_platform os = ''win32'' then '';'' else '':'') @ ''html_assets'']
            else [])"
proof -
  from get_optimal_Inr [OF assms] obtain analysis where
    o: "opts = directives_of os s' config analysis" by blast
  have f: "filter is_data_directive opts =
           (if source_type (build config) = ''folder''
            then [''--add-data=''
                  @ os_path_join os (output_dir (build config)) [''build'', ''html_assets'']
                  @ (if sys_platform os = ''win32'' then '';'' else '':'') @ ''html_assets'']
            else [])"
    unfolding o directives_of_def
    by (simp add: hidden_not_data is_data_directive_def)
  have "list_ex is_data_directive opts \<longleftrightarrow> filter is_data_directive opts \<noteq> []"
    by (simp add: list_ex_iff filter_empty_conv)
  with f show ?thesis by simp
qed

theorem data_directive_iff_folder_witness:
  "\<exists>opts s'. get_optimal_pyinstaller_options app_os [] (demo_config ''folder'' ''/app'')
                 = Inr (opts, s')
     \<and> list_ex is_data_directive opts
     \<and> filter is_data_directive opts = [''--add-data=out/build/html_assets:html_assets'']"
proof -
  from app_run obtain opts s' where
    run: "get_optimal_pyinstaller_options app_os [] (demo_config ''folder'' ''/app'')
            = Inr (opts, s')"
    by blast
  from data_directive_iff_folder [OF run]
  have "list_ex is_data_directive opts
      \<and> filter is_data_directive opts = [''--add-data=out/build/html_assets:html_assets'']"
    by (simp add: demo_config_def app_os_def sim_os_def)
  with run show ?thesis by blast
qed

text \<open>
  C9. For every configuration the option list holds exactly one packaging-mode directive:
  \<^verbatim>\<open>--onefile\<close> once and no \<^verbatim>\<open>--onedir\<close>, or \<^verbatim>\<open>--onedir\<close> once and no
  \<^verbatim>\<open>--onefile\<close>.
\<close>

theorem exactly_one_packaging_mode:
  assumes "get_optimal_pyinstaller_options os s config = Inr (opts, s')"
  shows "(count_list opts ''--onefile'' = 1 \<and> count_list opts ''--onedir'' = 0)
       \<or> (count_list opts ''--onefile'' = 0 \<and> count_list opts ''--onedir'' = 1)"
proof -
  from get_optimal_Inr [OF assms] obtain analysis where
    o: "opts = directives_of os s' config analysis" by blast
  show ?thesis
    unfolding o directives_of_def
    by (simp add: hidden_count)
qed

theorem exactly_one_packaging_mode_witness:
  "\<exists>opts s'. get_optimal_pyinstaller_options app_os [] (demo_config ''folder'' ''/app'')
                 = Inr (opts, s')
     \<and> ((count_list opts ''--onefile'' = 1 \<and> count_list opts ''--onedir'' = 0)
        \<or> (count_list opts ''--onefile'' = 0 \<and> count_list opts ''--onedir'' = 1))"
proof -
  from app_run obtain opts s' where
    run: "get_optimal_pyinstaller_options app_os [] (demo_config ''folder'' ''/app'')
            = Inr (opts, s')"
    by blast
  from exactly_one_packaging_mode [OF run] run show ?thesis by blast
qed

text \<open>
  C10. Whatever the source, the dictionary the analysis returns has
  \<^verbatim>\<open>upx_compress\<close> equal to \<^verbatim>\<open>False\<close>, and no option list the selector returns holds
  the compression directive \<^verbatim>\<open>--upx-dir=upx\<close>.
\<close>

theorem compression_never_selected:
  "(analyze_source os s p t = Inr r \<longrightarrow> r ''upx_compress'' = Some (PyBool False))
 \<and> (get_optimal_pyinstaller_options os s config = Inr (opts, s') \<longrightarrow> ''--upx-dir=upx'' \<notin> set opts)"
proof (intro conjI impI)
  assume "analyze_source os s p t = Inr r"
  then show "r ''upx_compress'' = Some (PyBool False)" by (rule analyze_source_flags(1))
next
  assume g: "get_optimal_pyinstaller_options os s config = Inr (opts, s')"
  from get_optimal_Inr [OF g] obtain analysis where
    a: "analyze_source os s (source_path (build config)) (source_type (build config)) = Inr analysis"
    and o: "opts = directives_of os s' config analysis" by blast
  note fl = analyze_source_flags(1) [OF a]
  show "''--upx-dir=upx'' \<notin> set opts"
    unfolding o directives_of_def fl using hidden_count(3) [of hidden_imports]
    by simp
qed

theorem compression_never_selected_witness:
  "\<exists>r opts s'. analyze_source app_os [] ''/app'' ''folder'' = Inr r
     \<and> r ''upx_compress'' = Some (PyBool False)
     \<and> get_optimal_pyinstaller_options app_os [] (demo_config ''folder'' ''/app'')
         = Inr (opts, s')
     \<and> ''--upx-dir=upx'' \<notin> set opts"
proof -
  have "\<exists>r. analyze_source app_os [] ''/app'' ''folder'' = Inr r"
    by (simp add: app_os_def sim_os_def analyze_source_folder)
  then obtain r where a: "analyze_source app_os [] ''/app'' ''folder'' = Inr r" by blast
  from app_run obtain opts s' where
    run: "get_optimal_pyinstaller_options app_os [] (demo_config ''folder'' ''/app'')
            = Inr (opts, s')"
    by blast
  from compression_never_selected [of app_os "[]" "''/app''" "''folder''" r
         "demo_config ''folder'' ''/app''" opts s'] a run
  show ?thesis by blast
qed

end
